theory Spec2Isabelle
  imports Complex_Main
begin

section \<open>Python values\<close>

text \<open>
  A Python \<open>str\<close> is a sequence of Unicode code points; the two direction glyphs of the
  parser lie far outside one byte, so a string is a list of code points, and a literal
  of the source is written \<open>str ''LONG''\<close>.

  A Python \<open>float\<close> is read as the real number it denotes and arithmetic is exact: the
  rounding of IEEE doubles, infinities and NaN are outside this development.
\<close>

type_synonym pstr = "nat list"

definition str :: "string \<Rightarrow> pstr" where
  "str s = map of_char s"

text \<open>
  A call either raises an exception, which unwinds to the caller, or returns a value.
\<close>

datatype py_error = KeyError pstr | AttributeError | ZeroDivisionError

datatype 'a outcome = Raised py_error | Returned 'a

text \<open>
  A \<open>dict\<close> is an association list in insertion order with distinct keys.
  \<open>d[k]\<close> raises \<open>KeyError\<close> on a missing key, \<open>d.get(k, default)\<close> does not.
\<close>

definition getitem :: "(pstr \<times> 'v) list \<Rightarrow> pstr \<Rightarrow> 'v outcome" where
  "getitem d k = (case map_of d k of None \<Rightarrow> Raised (KeyError k) | Some v \<Rightarrow> Returned v)"

definition get_default :: "(pstr \<times> 'v) list \<Rightarrow> pstr \<Rightarrow> 'v \<Rightarrow> 'v" where
  "get_default d k dflt = (case map_of d k of None \<Rightarrow> dflt | Some v \<Rightarrow> v)"

text \<open>True division of floats raises on a zero divisor.\<close>

definition py_div :: "real \<Rightarrow> real \<Rightarrow> real outcome" where
  "py_div a b = (if b = 0 then Raised ZeroDivisionError else Returned (a / b))"

text \<open>
  \<open>round(x, ndigits)\<close> rounds to the nearest multiple of \<open>10 ** -ndigits\<close>, a tie going
  to the even neighbour.
\<close>

definition round_half_even :: "real \<Rightarrow> int" where
  "round_half_even y =
     (let f = \<lfloor>y\<rfloor>; d = y - of_int f
      in if d < 1 / 2 then f else if 1 / 2 < d then f + 1 else if even f then f else f + 1)"

definition py_round :: "real \<Rightarrow> nat \<Rightarrow> real" where
  "py_round x ndigits = of_int (round_half_even (x * 10 ^ ndigits)) / 10 ^ ndigits"

section \<open>The rule table (config/rules.json)\<close>

text \<open>
  The configuration is the document \<open>json.load\<close> returns, in its typed view: a rule row
  holds the four distances and an optional \<open>unit\<close>; an asset's object holds an optional
  \<open>aliases\<close> list and, under every other key, the rule row of a timeframe.
\<close>

record level_rule =
  rule_tp1 :: real
  rule_tp2 :: real
  rule_tp3 :: real
  rule_sl :: real
  rule_unit :: "pstr option"

record asset_data =
  aliases :: "pstr list option"
  tf_rules :: "(pstr \<times> level_rule) list"

record config =
  directions :: "(pstr \<times> pstr list) list"
  assets :: "(pstr \<times> asset_data) list"
  timeframes_aliases :: "(pstr \<times> pstr) list"

datatype asset_field = AliasList "pstr list" | RuleRow level_rule

text \<open>\<open>data[k]\<close>, \<open>k in data\<close> and \<open>data.keys()\<close> on an asset's object.\<close>

definition asset_getitem :: "asset_data \<Rightarrow> pstr \<Rightarrow> asset_field outcome" where
  "asset_getitem data k =
     (if k = str ''aliases''
      then (case aliases data of None \<Rightarrow> Raised (KeyError k) | Some l \<Rightarrow> Returned (AliasList l))
      else (case map_of (tf_rules data) k of
              None \<Rightarrow> Raised (KeyError k) | Some r \<Rightarrow> Returned (RuleRow r)))"

definition asset_contains :: "asset_data \<Rightarrow> pstr \<Rightarrow> bool" where
  "asset_contains data k =
     (if k = str ''aliases'' then aliases data \<noteq> None else map_of (tf_rules data) k \<noteq> None)"

section \<open>calculator.py\<close>

record trading_levels =
  direction :: pstr
  asset :: pstr
  timeframe :: pstr
  entry :: real
  tp1 :: real
  tp2 :: real
  tp3 :: real
  sl :: real
  tp1_distance :: real
  tp2_distance :: real
  tp3_distance :: real
  sl_distance :: real
  unit :: pstr
  rr_ratio :: real

definition PIP_VALUES :: "(pstr \<times> real) list" where
  "PIP_VALUES =
     [(str ''EURUSD'', 0.0001), (str ''GBPUSD'', 0.0001), (str ''USDJPY'', 0.01),
      (str ''AUDUSD'', 0.0001), (str ''USDCAD'', 0.0001), (str ''USDCHF'', 0.0001)]"

definition POINT_VALUES :: "(pstr \<times> real) list" where
  "POINT_VALUES = [(str ''US30'', 1.0), (str ''NAS100'', 1.0), (str ''SPX500'', 0.1)]"

definition calc_percentage ::
  "pstr \<Rightarrow> real \<Rightarrow> real \<Rightarrow> real \<Rightarrow> real \<Rightarrow> real \<Rightarrow> real \<times> real \<times> real \<times> real" where
  "calc_percentage dir entry_p tp1_pct tp2_pct tp3_pct sl_pct =
     (if dir = str ''LONG''
      then (entry_p * (1 + tp1_pct / 100), entry_p * (1 + tp2_pct / 100),
            entry_p * (1 + tp3_pct / 100), entry_p * (1 - sl_pct / 100))
      else (entry_p * (1 - tp1_pct / 100), entry_p * (1 - tp2_pct / 100),
            entry_p * (1 - tp3_pct / 100), entry_p * (1 + sl_pct / 100)))"

definition calc_pips ::
  "pstr \<Rightarrow> real \<Rightarrow> real \<Rightarrow> real \<Rightarrow> real \<Rightarrow> real \<Rightarrow> real \<Rightarrow> real \<times> real \<times> real \<times> real" where
  "calc_pips dir entry_p pip_value tp1_pips tp2_pips tp3_pips sl_pips =
     (if dir = str ''LONG''
      then (entry_p + (tp1_pips * pip_value), entry_p + (tp2_pips * pip_value),
            entry_p + (tp3_pips * pip_value), entry_p - (sl_pips * pip_value))
      else (entry_p - (tp1_pips * pip_value), entry_p - (tp2_pips * pip_value),
            entry_p - (tp3_pips * pip_value), entry_p + (sl_pips * pip_value)))"

definition calc_points ::
  "pstr \<Rightarrow> real \<Rightarrow> real \<Rightarrow> real \<Rightarrow> real \<Rightarrow> real \<Rightarrow> real \<Rightarrow> real \<times> real \<times> real \<times> real" where
  "calc_points dir entry_p point_value tp1_pts tp2_pts tp3_pts sl_pts =
     (if dir = str ''LONG''
      then (entry_p + (tp1_pts * point_value), entry_p + (tp2_pts * point_value),
            entry_p + (tp3_pts * point_value), entry_p - (sl_pts * point_value))
      else (entry_p - (tp1_pts * point_value), entry_p - (tp2_pts * point_value),
            entry_p - (tp3_pts * point_value), entry_p + (sl_pts * point_value)))"

text \<open>
  \<open>LevelCalculator.calculate\<close>. The lookup \<open>self.config["assets"][asset][timeframe]\<close>
  raises \<open>KeyError\<close> on a missing key; when the timeframe is the key \<open>aliases\<close> the value
  found is a list, and \<open>rules.get\<close> raises \<open>AttributeError\<close>.
\<close>

definition calculate :: "config \<Rightarrow> pstr \<Rightarrow> pstr \<Rightarrow> pstr \<Rightarrow> real \<Rightarrow> trading_levels outcome" where
  "calculate cfg dir ast tf entry_price =
     (case getitem (assets cfg) ast of
        Raised e \<Rightarrow> Raised e
      | Returned data \<Rightarrow>
     (case asset_getitem data tf of
        Raised e \<Rightarrow> Raised e
      | Returned (AliasList l) \<Rightarrow> Raised AttributeError
      | Returned (RuleRow rules) \<Rightarrow>
          (let u = (case rule_unit rules of None \<Rightarrow> str ''%'' | Some s \<Rightarrow> s);
               tp1_dist = rule_tp1 rules;
               tp2_dist = rule_tp2 rules;
               tp3_dist = rule_tp3 rules;
               sl_dist = rule_sl rules;
               levels =
                 (if u = str ''pips''
                  then calc_pips dir entry_price (get_default PIP_VALUES ast 0.0001)
                         tp1_dist tp2_dist tp3_dist sl_dist
                  else if u = str ''points''
                  then calc_points dir entry_price (get_default POINT_VALUES ast 1.0)
                         tp1_dist tp2_dist tp3_dist sl_dist
                  else calc_percentage dir entry_price tp1_dist tp2_dist tp3_dist sl_dist);
               avg_tp = (tp1_dist + tp2_dist + tp3_dist) / 3
           in (case (if sl_dist > 0
                     then (case py_div avg_tp sl_dist of
                             Raised e \<Rightarrow> Raised e
                           | Returned q \<Rightarrow> Returned (py_round q 2))
                     else Returned 0) of
                 Raised e \<Rightarrow> Raised e
               | Returned rr \<Rightarrow>
                   (case levels of (l1, l2, l3, ls) \<Rightarrow>
                      Returned \<lparr>direction = dir, asset = ast, timeframe = tf,
                        entry = entry_price, tp1 = l1, tp2 = l2, tp3 = l3, sl = ls,
                        tp1_distance = tp1_dist, tp2_distance = tp2_dist,
                        tp3_distance = tp3_dist, sl_distance = sl_dist,
                        unit = u, rr_ratio = rr\<rparr>)))))"

text \<open>
  The rule row of an (asset, timeframe) pair, when the table has one, and the unit
  \<open>rules.get("unit", "%")\<close> of a row.
\<close>

definition rule_row :: "config \<Rightarrow> pstr \<Rightarrow> pstr \<Rightarrow> level_rule option" where
  "rule_row cfg ast tf =
     (case map_of (assets cfg) ast of
        None \<Rightarrow> None
      | Some data \<Rightarrow> if tf = str ''aliases'' then None else map_of (tf_rules data) tf)"

definition unit_of :: "level_rule \<Rightarrow> pstr" where
  "unit_of r = (case rule_unit r of None \<Rightarrow> str ''%'' | Some s \<Rightarrow> s)"




text \<open>A table for the examples: the rows of the documentation, one asset per unit.\<close>

definition example_config :: config where
  "example_config =
     \<lparr>directions =
        [(str ''LONG'', [str ''LONG'', str ''BUY'', str ''L'']),
         (str ''SHORT'', [str ''SHORT'', str ''SELL'', str ''S''])],
      assets =
        [(str ''BTCUSD'',
            \<lparr>aliases = Some [str ''BTC'', str ''BITCOIN''],
             tf_rules =
               [(str ''M1'', \<lparr>rule_tp1 = 0.5, rule_tp2 = 1.0, rule_tp3 = 1.5,
                              rule_sl = 0.7, rule_unit = Some (str ''%'')\<rparr>),
                (str ''M5'', \<lparr>rule_tp1 = 1.0, rule_tp2 = 2.0, rule_tp3 = 3.5,
                              rule_sl = 1.5, rule_unit = Some (str ''%'')\<rparr>)]\<rparr>),
         (str ''USDJPY'',
            \<lparr>aliases = None,
             tf_rules =
               [(str ''M15'', \<lparr>rule_tp1 = 10, rule_tp2 = 20, rule_tp3 = 30,
                               rule_sl = 15, rule_unit = Some (str ''pips'')\<rparr>)]\<rparr>),
         (str ''US30'',
            \<lparr>aliases = Some [str ''DOW''],
             tf_rules =
               [(str ''H1'', \<lparr>rule_tp1 = 50, rule_tp2 = 100, rule_tp3 = 150,
                              rule_sl = 0, rule_unit = Some (str ''points'')\<rparr>),
                (str ''H4'', \<lparr>rule_tp1 = 1, rule_tp2 = 2, rule_tp3 = 3,
                              rule_sl = 2, rule_unit = None\<rparr>),
                (str ''M5'', \<lparr>rule_tp1 = 1, rule_tp2 = 2, rule_tp3 = 3,
                              rule_sl = 2, rule_unit = Some (str ''ticks'')\<rparr>)]\<rparr>)],
      timeframes_aliases =
        [(str ''1'', str ''M1''), (str ''1M'', str ''M1''), (str ''M1'', str ''M1''),
         (str ''5'', str ''M5''), (str ''5M'', str ''M5''), (str ''M5'', str ''M5''),
         (str ''15'', str ''M15''), (str ''15M'', str ''M15''), (str ''M15'', str ''M15''),
         (str ''H1'', str ''H1''), (str ''1H'', str ''H1''),
         (str ''H4'', str ''H4''), (str ''4H'', str ''H4'')]\<rparr>"



definition btc_m5 :: level_rule where
  "btc_m5 = \<lparr>rule_tp1 = 1.0, rule_tp2 = 2.0, rule_tp3 = 3.5, rule_sl = 1.5,
              rule_unit = Some (str ''%'')\<rparr>"

section \<open>Python's string library\<close>

text \<open>
  Python's Unicode tables are not part of the repository and are a parameter of the
  parser: \<open>str.isspace\<close>, \<open>str.isalnum\<close>, the value of a decimal digit (what \<open>\d\<close>
  matches and \<open>float\<close> reads) and the upper-case mapping of one code point, which
  may be several code points long.
\<close>

record unicode =
  isspace :: "nat \<Rightarrow> bool"
  isalnum :: "nat \<Rightarrow> bool"
  decimal :: "nat \<Rightarrow> nat option"
  upper :: "nat \<Rightarrow> pstr"

definition ascii :: unicode where
  "ascii =
     \<lparr>isspace = (\<lambda>c. c = 32 \<or> (9 \<le> c \<and> c \<le> 13) \<or> (28 \<le> c \<and> c \<le> 31)),
      isalnum = (\<lambda>c. (48 \<le> c \<and> c \<le> 57) \<or> (65 \<le> c \<and> c \<le> 90) \<or> (97 \<le> c \<and> c \<le> 122)),
      decimal = (\<lambda>c. if 48 \<le> c \<and> c \<le> 57 then Some (c - 48) else None),
      upper = (\<lambda>c. if 97 \<le> c \<and> c \<le> 122 then [c - 32] else [c])\<rparr>"

definition is_word :: "unicode \<Rightarrow> nat \<Rightarrow> bool" where
  "is_word U c \<longleftrightarrow> isalnum U c \<or> c = 95"

definition is_digit :: "unicode \<Rightarrow> nat \<Rightarrow> bool" where
  "is_digit U c \<longleftrightarrow> decimal U c \<noteq> None"

definition GREEN :: nat where "GREEN = 0x1F7E2"
definition RED :: nat where "RED = 0x1F534"
definition CROSS :: nat where "CROSS = 0x274C"

definition str_upper :: "unicode \<Rightarrow> pstr \<Rightarrow> pstr" where
  "str_upper U s = concat (map (upper U) s)"

definition strip :: "unicode \<Rightarrow> pstr \<Rightarrow> pstr" where
  "strip U s = rev (dropWhile (isspace U) (rev (dropWhile (isspace U) s)))"

fun split_from :: "(nat \<Rightarrow> bool) \<Rightarrow> pstr \<Rightarrow> pstr \<Rightarrow> pstr list" where
  "split_from sp w [] = (if w = [] then [] else [w])"
| "split_from sp w (c # cs) =
     (if sp c then (if w = [] then split_from sp [] cs else w # split_from sp [] cs)
      else split_from sp (w @ [c]) cs)"

definition split :: "unicode \<Rightarrow> pstr \<Rightarrow> pstr list" where
  "split U s = split_from (isspace U) [] s"

definition replace_char :: "nat \<Rightarrow> nat \<Rightarrow> pstr \<Rightarrow> pstr" where
  "replace_char old new s = map (\<lambda>c. if c = old then new else c) s"

fun join :: "pstr \<Rightarrow> pstr list \<Rightarrow> pstr" where
  "join sep [] = []"
| "join sep [x] = x"
| "join sep (x # y # ys) = x @ sep @ join sep (y # ys)"

fun startswith :: "pstr \<Rightarrow> pstr \<Rightarrow> bool" where
  "startswith s [] = True"
| "startswith [] (p # ps) = False"
| "startswith (c # cs) (p # ps) = (c = p \<and> startswith cs ps)"

fun contains :: "pstr \<Rightarrow> pstr \<Rightarrow> bool" where
  "contains [] sub = (sub = [])"
| "contains (c # cs) sub = (startswith (c # cs) sub \<or> contains cs sub)"

fun setitem :: "(pstr \<times> 'v) list \<Rightarrow> pstr \<Rightarrow> 'v \<Rightarrow> (pstr \<times> 'v) list" where
  "setitem [] k v = [(k, v)]"
| "setitem ((k', v') # d) k v = (if k' = k then (k', v) # d else (k', v') # setitem d k v)"

section \<open>Python's re\<close>

text \<open>
  The patterns of the parser use one-character classes, greedy repetition of a class,
  concatenation, alternation and \<open>\b\<close>. \<open>ends\<close> lists the positions where a match
  starting at \<open>i\<close> can end, in the order the backtracking matcher tries them:
  the first alternative first, the longest repetition first.
\<close>

datatype regex =
    Eps
  | Chr "nat \<Rightarrow> bool"
  | WordBoundary
  | Cat regex regex
  | Alt regex regex
  | Plus "nat \<Rightarrow> bool"
  | Star "nat \<Rightarrow> bool"
  | Opt "nat \<Rightarrow> bool"

definition at_boundary :: "(nat \<Rightarrow> bool) \<Rightarrow> pstr \<Rightarrow> nat \<Rightarrow> bool" where
  "at_boundary w s i \<longleftrightarrow> (0 < i \<and> w (s ! (i - 1))) \<noteq> (i < length s \<and> w (s ! i))"

definition run :: "(nat \<Rightarrow> bool) \<Rightarrow> pstr \<Rightarrow> nat \<Rightarrow> nat" where
  "run p s i = length (takeWhile p (drop i s))"

fun ends :: "(nat \<Rightarrow> bool) \<Rightarrow> regex \<Rightarrow> pstr \<Rightarrow> nat \<Rightarrow> nat list" where
  "ends w Eps s i = [i]"
| "ends w (Chr p) s i = (if i < length s \<and> p (s ! i) then [i + 1] else [])"
| "ends w WordBoundary s i = (if at_boundary w s i then [i] else [])"
| "ends w (Cat a b) s i = concat (map (ends w b s) (ends w a s i))"
| "ends w (Alt a b) s i = ends w a s i @ ends w b s i"
| "ends w (Plus p) s i = rev [i + 1 ..< i + run p s i + 1]"
| "ends w (Star p) s i = rev [i ..< i + run p s i + 1]"
| "ends w (Opt p) s i = (if i < length s \<and> p (s ! i) then [i + 1, i] else [i])"

text \<open>
  A pattern with one group is a prefix, the group and a suffix. A match at \<open>i\<close> gives
  the span of the group and the end of the match.
\<close>

definition match_at ::
  "(nat \<Rightarrow> bool) \<Rightarrow> regex \<times> regex \<times> regex \<Rightarrow> pstr \<Rightarrow> nat \<Rightarrow> (nat \<times> nat \<times> nat) option" where
  "match_at w pat s i =
     (case pat of (pre, grp, post) \<Rightarrow>
        (case concat (map (\<lambda>j. concat (map (\<lambda>k. map (\<lambda>e. (j, k, e)) (ends w post s k))
                                           (ends w grp s j)))
                          (ends w pre s i)) of
           [] \<Rightarrow> None
         | m # _ \<Rightarrow> Some m))"

definition slice :: "pstr \<Rightarrow> nat \<Rightarrow> nat \<Rightarrow> pstr" where
  "slice s j k = take (k - j) (drop j s)"

text \<open>\<open>re.search(...).group(1)\<close>: the group of the leftmost match.\<close>

fun search_from ::
  "(nat \<Rightarrow> bool) \<Rightarrow> regex \<times> regex \<times> regex \<Rightarrow> pstr \<Rightarrow> nat list \<Rightarrow> pstr option" where
  "search_from w pat s [] = None"
| "search_from w pat s (i # starts) =
     (case match_at w pat s i of
        None \<Rightarrow> search_from w pat s starts
      | Some (j, k, e) \<Rightarrow> Some (slice s j k))"

definition re_search :: "(nat \<Rightarrow> bool) \<Rightarrow> regex \<times> regex \<times> regex \<Rightarrow> pstr \<Rightarrow> pstr option" where
  "re_search w pat s = search_from w pat s [0 ..< length s + 1]"

text \<open>
  \<open>re.findall\<close>: the groups of the successive non-overlapping matches, each search
  resuming where the last match ended (the patterns here match no empty string).
\<close>

fun findall_from ::
  "(nat \<Rightarrow> bool) \<Rightarrow> regex \<times> regex \<times> regex \<Rightarrow> pstr \<Rightarrow> nat list \<Rightarrow> nat \<Rightarrow> pstr list" where
  "findall_from w pat s [] pos = []"
| "findall_from w pat s (i # starts) pos =
     (if i < pos then findall_from w pat s starts pos
      else (case match_at w pat s i of
              None \<Rightarrow> findall_from w pat s starts pos
            | Some (j, k, e) \<Rightarrow> slice s j k # findall_from w pat s starts (max e (i + 1))))"

definition re_findall :: "(nat \<Rightarrow> bool) \<Rightarrow> regex \<times> regex \<times> regex \<Rightarrow> pstr \<Rightarrow> pstr list" where
  "re_findall w pat s = findall_from w pat s [0 ..< length s + 1] 0"

text \<open>
  \<open>float\<close> on the strings the price pattern captures, commas removed: digits with at
  most one point and at least one digit; anything else raises \<open>ValueError\<close>, here
  \<open>None\<close>.
\<close>

fun digits_value :: "unicode \<Rightarrow> pstr \<Rightarrow> nat \<Rightarrow> nat option" where
  "digits_value U [] acc = Some acc"
| "digits_value U (c # cs) acc =
     (case decimal U c of None \<Rightarrow> None | Some d \<Rightarrow> digits_value U cs (10 * acc + d))"

definition py_float :: "unicode \<Rightarrow> pstr \<Rightarrow> real option" where
  "py_float U s =
     (let ip = takeWhile (\<lambda>c. c \<noteq> 46) s; fp = drop (length ip + 1) s
      in if (ip = [] \<and> fp = []) \<or> 46 \<in> set fp then None
         else (case (digits_value U ip 0, digits_value U fp 0) of
                 (Some a, Some b) \<Rightarrow> Some (real a + real b / 10 ^ length fp)
               | _ \<Rightarrow> None))"

text \<open>
  \<open>re.sub(r'[^\w]', '', word)\<close> deletes every character that is no word character,
  and the variant of the direction loop keeps the two glyphs as well; \<open>\w\<close> is an
  alphanumeric character or the underscore.
\<close>

definition sub_nonword :: "unicode \<Rightarrow> pstr \<Rightarrow> pstr" where
  "sub_nonword U word = filter (is_word U) word"

definition sub_nonword_glyph :: "unicode \<Rightarrow> pstr \<Rightarrow> pstr" where
  "sub_nonword_glyph U word = filter (\<lambda>c. is_word U c \<or> c = GREEN \<or> c = RED) word"

section \<open>parser.py\<close>

record parsed_signal =
  signal_direction :: pstr
  signal_asset :: pstr
  signal_timeframe :: pstr
  original_message :: pstr
  timestamp :: nat
  entry_price :: "real option"

record message_parser =
  config :: config
  direction_lookup :: "(pstr \<times> pstr) list"
  asset_lookup :: "(pstr \<times> pstr) list"
  tf_lookup :: "(pstr \<times> pstr) list"


definition build_lookup_tables :: "unicode \<Rightarrow> config \<Rightarrow> message_parser" where
  "build_lookup_tables U cfg =
     \<lparr>config = cfg,
      direction_lookup =
        foldl (\<lambda>tbl (dir, als). foldl (\<lambda>t alias. setitem t (str_upper U alias) dir) tbl als)
          [] (directions cfg),
      asset_lookup =
        foldl (\<lambda>tbl (ast, data).
                 (case aliases data of
                    None \<Rightarrow> setitem tbl (str_upper U ast) ast
                  | Some als \<Rightarrow>
                      foldl (\<lambda>t alias. setitem t (str_upper U alias) ast)
                        (setitem tbl (str_upper U ast) ast) als))
          [] (assets cfg),
      tf_lookup =
        foldl (\<lambda>t (alias, tf). setitem t (str_upper U alias) tf) [] (timeframes_aliases cfg)\<rparr>"



text \<open>
  The loops over words: the first word whose cleaned form is a key of the table
  decides.
\<close>

fun lookup_words :: "(pstr \<Rightarrow> pstr) \<Rightarrow> (pstr \<times> pstr) list \<Rightarrow> pstr list \<Rightarrow> pstr option" where
  "lookup_words clean tbl [] = None"
| "lookup_words clean tbl (word # words) =
     (case map_of tbl (clean word) of
        Some v \<Rightarrow> Some v
      | None \<Rightarrow> lookup_words clean tbl words)"

definition extract_direction :: "unicode \<Rightarrow> message_parser \<Rightarrow> pstr \<Rightarrow> pstr option" where
  "extract_direction U P message =
     (let words = split U message
      in lookup_words (sub_nonword_glyph U) (direction_lookup P) (take 3 words))"

fun lookup_substring :: "(pstr \<times> pstr) list \<Rightarrow> pstr \<Rightarrow> pstr list \<Rightarrow> pstr option" where
  "lookup_substring tbl message [] = None"
| "lookup_substring tbl message (alias # rest) =
     (if contains message alias then map_of tbl alias
      else lookup_substring tbl message rest)"

definition sorted_by_len_reverse :: "pstr list \<Rightarrow> pstr list" where
  "sorted_by_len_reverse ks = sort_key (\<lambda>k. - int (length k)) ks"

definition extract_asset :: "unicode \<Rightarrow> message_parser \<Rightarrow> pstr \<Rightarrow> pstr option" where
  "extract_asset U P message =
     (let words = split U (replace_char 64 32 message)
      in (case lookup_words (sub_nonword U) (asset_lookup P) words of
            Some a \<Rightarrow> Some a
          | None \<Rightarrow>
              lookup_substring (asset_lookup P) message
                (sorted_by_len_reverse (map fst (asset_lookup P)))))"

definition tf_pattern :: "unicode \<Rightarrow> regex \<times> regex \<times> regex" where
  "tf_pattern U =
     (let MHD = (\<lambda>c. c \<in> {77, 72, 68, 109, 104, 100});
          M = (\<lambda>c. c \<in> {77, 109});
          I = (\<lambda>c. c \<in> {73, 105, 304, 305});
          N = (\<lambda>c. c \<in> {78, 110});
          d = is_digit U
      in (WordBoundary,
          Alt (Cat (Chr MHD) (Plus d))
            (Alt (Cat (Plus d) (Chr MHD))
               (Alt (Cat (Plus d) (Cat (Chr M) (Cat (Chr I) (Opt N))))
                  (Plus d))),
          WordBoundary))"

definition extract_timeframe :: "unicode \<Rightarrow> message_parser \<Rightarrow> pstr \<Rightarrow> pstr option" where
  "extract_timeframe U P message =
     (let matches = re_findall (is_word U) (tf_pattern U) message
      in (case lookup_words (str_upper U) (tf_lookup P) matches of
            Some tf \<Rightarrow> Some tf
          | None \<Rightarrow>
              lookup_words (\<lambda>word. str_upper U (sub_nonword U word)) (tf_lookup P)
                (split U message)))"

definition price_pattern :: "unicode \<Rightarrow> regex \<times> regex \<times> regex" where
  "price_pattern U =
     (Cat (Chr (\<lambda>c. c = 64)) (Star (isspace U)),
      Plus (\<lambda>c. is_digit U c \<or> c = 46 \<or> c = 44),
      Eps)"

definition extract_price :: "unicode \<Rightarrow> pstr \<Rightarrow> real option" where
  "extract_price U message =
     (case re_search (is_word U) (price_pattern U) message of
        None \<Rightarrow> None
      | Some lit \<Rightarrow> py_float U (filter (\<lambda>c. c \<noteq> 44) lit))"

text \<open>
  \<open>parse\<close> returns the pair (signal, error). \<open>not direction\<close> holds for \<open>None\<close> and for
  the empty string alike.
\<close>

definition falsy :: "pstr option \<Rightarrow> bool" where
  "falsy v \<longleftrightarrow> v = None \<or> v = Some []"

definition parse ::
  "unicode \<Rightarrow> message_parser \<Rightarrow> nat \<Rightarrow> pstr \<Rightarrow> (parsed_signal option \<times> pstr option) outcome" where
  "parse U P now message0 =
     (let original = message0;
          message = str_upper U (strip U message0);
          dir = extract_direction U P message
      in if falsy dir
         then Returned (None, Some (CROSS # str '' Direction not found. Use: LONG/SHORT/BUY/SELL''))
         else
     (let ast = extract_asset U P message
      in if falsy ast
         then Returned (None, Some (CROSS # str '' Asset not recognized. Available: ''
                                      @ join (str '', '') (map fst (assets (config P)))))
         else
     (let tf = extract_timeframe U P message
      in if falsy tf
         then Returned (None, Some (CROSS # str '' Timeframe not found. Use: M1/M5/M15/H1/H4''))
         else
     (case getitem (assets (config P)) (the ast) of
        Raised e \<Rightarrow> Raised e
      | Returned data \<Rightarrow>
          if \<not> asset_contains data (the tf)
          then (let available_tfs = filter (\<lambda>k. k \<noteq> str ''aliases'') (map fst (tf_rules data))
                in Returned (None, Some (CROSS # str '' TF '' @ the tf
                       @ str '' not configured for '' @ the ast
                       @ str ''. Available: '' @ join (str '', '') available_tfs)))
          else (let price = extract_price U message
                in Returned (Some \<lparr>signal_direction = the dir, signal_asset = the ast,
                                    signal_timeframe = the tf, original_message = original,
                                    timestamp = now, entry_price = price\<rparr>, None))))))"

section \<open>The specification's wording, for comparison\<close>

text \<open>
  Direction extraction as the specification words it: every non-alphanumeric
  character other than the two glyphs is stripped from a candidate token.
\<close>

definition spec_strip_token :: "unicode \<Rightarrow> pstr \<Rightarrow> pstr" where
  "spec_strip_token U word = filter (\<lambda>c. isalnum U c \<or> c = GREEN \<or> c = RED) word"

definition spec_extract_direction :: "unicode \<Rightarrow> message_parser \<Rightarrow> pstr \<Rightarrow> pstr option" where
  "spec_extract_direction U P message =
     lookup_words (spec_strip_token U) (direction_lookup P) (take 3 (split U message))"

section \<open>Example tables\<close>

definition parser0 :: message_parser where
  "parser0 = build_lookup_tables ascii example_config"

text \<open>
  A table with the three defects the loader is said to reject: the alias \<open>BUY\<close> under
  both directions, a negative distance and the unit \<open>ticks\<close>.
\<close>

definition bad_rule :: level_rule where
  "bad_rule = \<lparr>rule_tp1 = - 1, rule_tp2 = 2, rule_tp3 = 3, rule_sl = 1,
                rule_unit = Some (str ''ticks'')\<rparr>"

definition bad_config :: config where
  "bad_config =
     \<lparr>directions = [(str ''LONG'', [str ''BUY'']), (str ''SHORT'', [str ''BUY''])],
      assets = [(str ''X'', \<lparr>aliases = None, tf_rules = [(str ''M1'', bad_rule)]\<rparr>)],
      timeframes_aliases = [(str ''M1'', str ''M1'')]\<rparr>"


text \<open>Three assets whose symbols are nested: BTC in BTCUSD in BTCUSDT.\<close>

definition nested_config :: config where
  "nested_config =
     \<lparr>directions = [(str ''LONG'', [str ''LONG'']), (str ''SHORT'', [str ''SHORT''])],
      assets =
        [(str ''BTC'', \<lparr>aliases = None, tf_rules = [(str ''M5'', btc_m5)]\<rparr>),
         (str ''BTCUSD'', \<lparr>aliases = None, tf_rules = [(str ''M5'', btc_m5)]\<rparr>),
         (str ''BTCUSDT'', \<lparr>aliases = None, tf_rules = [(str ''M5'', btc_m5)]\<rparr>)],
      timeframes_aliases = [(str ''M5'', str ''M5'')]\<rparr>"

definition nested_parser :: message_parser where
  "nested_parser = build_lookup_tables ascii nested_config"

section \<open>Properties of the calculator\<close>

lemma str_LONG_SHORT:
  "str ''LONG'' \<noteq> str ''SHORT''" "str ''SHORT'' \<noteq> str ''LONG''"
  by (simp_all add: str_def)

lemma str_units:
  "str ''pips'' \<noteq> str ''points''" "str ''points'' \<noteq> str ''pips''"
  "str ''%'' \<noteq> str ''pips''" "str ''%'' \<noteq> str ''points''"
  by (simp_all add: str_def)

lemma PIP_VALUES_pos: "0 < get_default PIP_VALUES ast 0.0001"
  by (simp add: get_default_def PIP_VALUES_def)

lemma POINT_VALUES_pos: "0 < get_default POINT_VALUES ast 1.0"
  by (simp add: get_default_def POINT_VALUES_def)



text \<open>What \<open>calculate\<close> returns on a pair that has a rule row.\<close>

lemma calculate_rule_row:
  assumes "rule_row cfg ast tf = Some r"
  shows "calculate cfg dir ast tf e =
           (let u = unit_of r;
                levels =
                  (if u = str ''pips''
                   then calc_pips dir e (get_default PIP_VALUES ast 0.0001)
                          (rule_tp1 r) (rule_tp2 r) (rule_tp3 r) (rule_sl r)
                   else if u = str ''points''
                   then calc_points dir e (get_default POINT_VALUES ast 1.0)
                          (rule_tp1 r) (rule_tp2 r) (rule_tp3 r) (rule_sl r)
                   else calc_percentage dir e (rule_tp1 r) (rule_tp2 r) (rule_tp3 r) (rule_sl r))
            in Returned \<lparr>direction = dir, asset = ast, timeframe = tf, entry = e,
                 tp1 = fst levels, tp2 = fst (snd levels), tp3 = fst (snd (snd levels)),
                 sl = snd (snd (snd levels)),
                 tp1_distance = rule_tp1 r, tp2_distance = rule_tp2 r,
                 tp3_distance = rule_tp3 r, sl_distance = rule_sl r, unit = u,
                 rr_ratio =
                   (if rule_sl r > 0
                    then py_round (((rule_tp1 r + rule_tp2 r + rule_tp3 r) / 3) / rule_sl r) 2
                    else 0)\<rparr>)"
proof -
  from assms obtain data where d: "map_of (assets cfg) ast = Some data"
    and tf: "tf \<noteq> str ''aliases''" and r: "map_of (tf_rules data) tf = Some r"
    by (auto simp: rule_row_def split: option.splits if_splits)
  have g1: "getitem (assets cfg) ast = Returned data"
    by (simp add: getitem_def d)
  have g2: "asset_getitem data tf = Returned (RuleRow r)"
    by (simp add: asset_getitem_def tf r)
  show ?thesis
    by (simp add: calculate_def g1 g2 py_div_def Let_def unit_of_def split: prod.split)
qed

lemma rule_row_btc_m5:
  "rule_row example_config (str ''BTCUSD'') (str ''M5'') = Some btc_m5"
  by (simp add: rule_row_def example_config_def btc_m5_def str_def)





text \<open>
  C4. For a positive entry price and a rule row with tp1 <= tp2 <= tp3 distances, the
  levels are ordered tp1 <= tp2 <= tp3 for LONG and tp1 >= tp2 >= tp3 for SHORT, under
  every unit.
\<close>

theorem monotone_levels:
  assumes "rule_row cfg ast tf = Some r"
    and "0 < e"
    and "rule_tp1 r \<le> rule_tp2 r" and "rule_tp2 r \<le> rule_tp3 r"
  shows "\<exists>lv. calculate cfg dir ast tf e = Returned lv \<and>
      (dir = str ''LONG'' \<longrightarrow> tp1 lv \<le> tp2 lv \<and> tp2 lv \<le> tp3 lv) \<and>
      (dir = str ''SHORT'' \<longrightarrow> tp2 lv \<le> tp1 lv \<and> tp3 lv \<le> tp2 lv)"
  using assms(2-4) PIP_VALUES_pos [of ast] POINT_VALUES_pos [of ast]
  by (simp add: calculate_rule_row [OF assms(1)] Let_def calc_pips_def
      calc_points_def calc_percentage_def str_LONG_SHORT divide_right_mono)

theorem monotone_levels_witness:
  "rule_row example_config (str ''BTCUSD'') (str ''M5'') = Some btc_m5 \<and>
   (0::real) < 65000 \<and> rule_tp1 btc_m5 \<le> rule_tp2 btc_m5 \<and> rule_tp2 btc_m5 \<le> rule_tp3 btc_m5 \<and>
   (\<exists>lv. calculate example_config (str ''LONG'') (str ''BTCUSD'') (str ''M5'') 65000
            = Returned lv \<and> tp1 lv \<le> tp2 lv \<and> tp2 lv \<le> tp3 lv) \<and>
   (\<exists>lv. calculate example_config (str ''SHORT'') (str ''BTCUSD'') (str ''M5'') 65000
            = Returned lv \<and> tp2 lv \<le> tp1 lv \<and> tp3 lv \<le> tp2 lv)"
proof -
  note h1 = rule_row_btc_m5
  have h2: "(0::real) < 65000" by simp
  have h3: "rule_tp1 btc_m5 \<le> rule_tp2 btc_m5" and h4: "rule_tp2 btc_m5 \<le> rule_tp3 btc_m5"
    by (simp_all add: btc_m5_def)
  from monotone_levels [OF h1 h2 h3 h4, of "str ''LONG''"]
  have a: "\<exists>lv. calculate example_config (str ''LONG'') (str ''BTCUSD'') (str ''M5'') 65000
            = Returned lv \<and> tp1 lv \<le> tp2 lv \<and> tp2 lv \<le> tp3 lv"
    by auto
  from monotone_levels [OF h1 h2 h3 h4, of "str ''SHORT''"]
  have b: "\<exists>lv. calculate example_config (str ''SHORT'') (str ''BTCUSD'') (str ''M5'') 65000
            = Returned lv \<and> tp2 lv \<le> tp1 lv \<and> tp3 lv \<le> tp2 lv"
    by auto
  from h1 h2 h3 h4 a b show ?thesis by blast
qed

text \<open>
  C10. For a rule row whose unit is absent or is a string other than pips and points,
  \<open>calculate\<close> returns normally with the levels of the percentage formula, and the unit of
  the result is "%" when the unit is absent and the row's own string otherwise.
\<close>

theorem unrecognized_unit_is_percentage:
  assumes "rule_row cfg ast tf = Some r"
    and "rule_unit r = None \<or>
         (\<exists>s. rule_unit r = Some s \<and> s \<noteq> str ''pips'' \<and> s \<noteq> str ''points'')"
  shows "\<exists>lv. calculate cfg dir ast tf e = Returned lv \<and>
      (tp1 lv, tp2 lv, tp3 lv, sl lv) =
        calc_percentage dir e (rule_tp1 r) (rule_tp2 r) (rule_tp3 r) (rule_sl r) \<and>
      unit lv = (case rule_unit r of None \<Rightarrow> str ''%'' | Some s \<Rightarrow> s)"
proof -
  have u: "unit_of r \<noteq> str ''pips''" "unit_of r \<noteq> str ''points''"
    using assms(2) by (auto simp: unit_of_def str_units)
  have v: "unit_of r = (case rule_unit r of None \<Rightarrow> str ''%'' | Some s \<Rightarrow> s)"
    by (simp add: unit_of_def)
  show ?thesis
    using u by (simp add: calculate_rule_row [OF assms(1)] Let_def v [symmetric])
qed

theorem unrecognized_unit_is_percentage_witness:
  "rule_row bad_config (str ''X'') (str ''M1'') = Some bad_rule \<and>
   rule_unit bad_rule = Some (str ''ticks'') \<and>
   str ''ticks'' \<noteq> str ''pips'' \<and> str ''ticks'' \<noteq> str ''points'' \<and>
   (\<exists>lv. calculate bad_config (str ''LONG'') (str ''X'') (str ''M1'') 100 = Returned lv \<and>
         tp1 lv = 99 \<and> tp2 lv = 102 \<and> tp3 lv = 103 \<and> sl lv = 99 \<and>
         unit lv = str ''ticks'')"
proof -
  have h1: "rule_row bad_config (str ''X'') (str ''M1'') = Some bad_rule"
    by (simp add: rule_row_def bad_config_def str_def)
  have h2: "rule_unit bad_rule = Some (str ''ticks'')"
    by (simp add: bad_rule_def)
  have h3: "str ''ticks'' \<noteq> str ''pips''" "str ''ticks'' \<noteq> str ''points''"
    by (simp_all add: str_def)
  from h2 h3 have h: "rule_unit bad_rule = None \<or>
      (\<exists>s. rule_unit bad_rule = Some s \<and> s \<noteq> str ''pips'' \<and> s \<noteq> str ''points'')"
    by simp
  from unrecognized_unit_is_percentage [OF h1 h, of "str ''LONG''" 100]
  have "\<exists>lv. calculate bad_config (str ''LONG'') (str ''X'') (str ''M1'') 100 = Returned lv \<and>
         tp1 lv = 99 \<and> tp2 lv = 102 \<and> tp3 lv = 103 \<and> sl lv = 99 \<and>
         unit lv = str ''ticks''"
    by (auto simp: calc_percentage_def bad_rule_def)
  with h1 h2 h3 show ?thesis by blast
qed

section \<open>Properties of the lookup tables\<close>

lemma map_of_setitem: "map_of (setitem d k v) = (map_of d)(k \<mapsto> v)"
  by (induction d k v rule: setitem.induct) auto

lemma ran_setitem: "ran (map_of (setitem d k v)) \<subseteq> insert v (ran (map_of d))"
  by (auto simp: map_of_setitem ran_def split: if_splits)

lemma ran_foldl_setitem:
  "ran (map_of (foldl (\<lambda>t alias. setitem t (f alias) v) tbl als))
     \<subseteq> insert v (ran (map_of tbl))"
proof (induction als arbitrary: tbl)
  case Nil
  then show ?case by auto
next
  case (Cons x xs)
  have "ran (map_of (foldl (\<lambda>t alias. setitem t (f alias) v) (setitem tbl (f x) v) xs))
          \<subseteq> insert v (ran (map_of (setitem tbl (f x) v)))"
    by (rule Cons.IH)
  also have "\<dots> \<subseteq> insert v (ran (map_of tbl))"
    using ran_setitem [of tbl "f x" v] by auto
  finally show ?case by simp
qed

lemma ran_asset_step:
  "ran (map_of (case aliases data of
                  None \<Rightarrow> setitem tbl (str_upper U ast) ast
                | Some als \<Rightarrow>
                    foldl (\<lambda>t alias. setitem t (str_upper U alias) ast)
                      (setitem tbl (str_upper U ast) ast) als))
     \<subseteq> insert ast (ran (map_of tbl))"
proof (cases "aliases data")
  case None
  then show ?thesis using ran_setitem [of tbl "str_upper U ast" ast] by simp
next
  case (Some als)
  have "ran (map_of (foldl (\<lambda>t alias. setitem t (str_upper U alias) ast)
                       (setitem tbl (str_upper U ast) ast) als))
          \<subseteq> insert ast (ran (map_of (setitem tbl (str_upper U ast) ast)))"
    by (rule ran_foldl_setitem)
  also have "\<dots> \<subseteq> insert ast (ran (map_of tbl))"
    using ran_setitem [of tbl "str_upper U ast" ast] by auto
  finally show ?thesis using Some by simp
qed

lemma ran_asset_fold:
  "ran (map_of (foldl (\<lambda>tbl (ast, data).
                  (case aliases data of
                     None \<Rightarrow> setitem tbl (str_upper U ast) ast
                   | Some als \<Rightarrow>
                       foldl (\<lambda>t alias. setitem t (str_upper U alias) ast)
                         (setitem tbl (str_upper U ast) ast) als))
                tbl xs))
     \<subseteq> ran (map_of tbl) \<union> fst ` set xs"
proof (induction xs arbitrary: tbl)
  case Nil
  then show ?case by simp
next
  case (Cons x xs)
  obtain ast data where x: "x = (ast, data)" by (cases x)
  show ?case
    using Cons.IH [of "case aliases data of
                  None \<Rightarrow> setitem tbl (str_upper U ast) ast
                | Some als \<Rightarrow>
                    foldl (\<lambda>t alias. setitem t (str_upper U alias) ast)
                      (setitem tbl (str_upper U ast) ast) als"]
      ran_asset_step [where tbl = tbl and ast = ast and data = data and U = U]
    by (auto simp: x)
qed

text \<open>Every value of the asset table is a key of the configuration's assets.\<close>

lemma asset_lookup_values:
  assumes "map_of (asset_lookup (build_lookup_tables U cfg)) k = Some a"
  shows "\<exists>data. map_of (assets cfg) a = Some data"
proof -
  from assms have "a \<in> ran (map_of (asset_lookup (build_lookup_tables U cfg)))"
    by (auto simp: ran_def)
  then have "a \<in> fst ` set (assets cfg)"
    using ran_asset_fold [of U "[]" "assets cfg"]
    by (auto simp: build_lookup_tables_def)
  then show ?thesis
    by (metis map_of_eq_None_iff not_Some_eq)
qed

section \<open>Properties of the word loops\<close>

lemma lookup_words_None_iff:
  "lookup_words clean tbl ws = None \<longleftrightarrow> (\<forall>w \<in> set ws. map_of tbl (clean w) = None)"
  by (induction ws) (auto split: option.splits)

lemma lookup_words_Some_iff:
  "lookup_words clean tbl ws = Some v \<longleftrightarrow>
     (\<exists>i < length ws. map_of tbl (clean (ws ! i)) = Some v \<and>
        (\<forall>j < i. map_of tbl (clean (ws ! j)) = None))"
proof (induction ws)
  case Nil
  then show ?case by simp
next
  case (Cons w ws)
  show ?case
  proof (cases "map_of tbl (clean w)")
    case None
    have "(\<exists>i < length (w # ws). map_of tbl (clean ((w # ws) ! i)) = Some v \<and>
            (\<forall>j < i. map_of tbl (clean ((w # ws) ! j)) = None))
          \<longleftrightarrow> (\<exists>i < length ws. map_of tbl (clean (ws ! i)) = Some v \<and>
            (\<forall>j < i. map_of tbl (clean (ws ! j)) = None))"
      (is "?L \<longleftrightarrow> ?R")
    proof
      assume ?L
      then obtain i where i: "i < length (w # ws)"
        "map_of tbl (clean ((w # ws) ! i)) = Some v"
        "\<forall>j < i. map_of tbl (clean ((w # ws) ! j)) = None" by blast
      from i(2) None obtain i' where i': "i = Suc i'" by (cases i) auto
      have "\<forall>j < i'. map_of tbl (clean (ws ! j)) = None"
      proof (intro allI impI)
        fix j assume "j < i'"
        then have "Suc j < i" using i' by simp
        with i(3) have "map_of tbl (clean ((w # ws) ! Suc j)) = None" by blast
        then show "map_of tbl (clean (ws ! j)) = None" by simp
      qed
      with i(1,2) i' show ?R by auto
    next
      assume ?R
      then obtain i where i: "i < length ws" "map_of tbl (clean (ws ! i)) = Some v"
        "\<forall>j < i. map_of tbl (clean (ws ! j)) = None" by blast
      have "\<forall>j < Suc i. map_of tbl (clean ((w # ws) ! j)) = None"
      proof (intro allI impI)
        fix j assume j: "j < Suc i"
        show "map_of tbl (clean ((w # ws) ! j)) = None"
        proof (cases j)
          case 0
          then show ?thesis using None by simp
        next
          case (Suc j')
          then show ?thesis using j i(3) by simp
        qed
      qed
      with i(1,2) show ?L by (intro exI [of _ "Suc i"]) simp
    qed
    with None Cons.IH show ?thesis by simp
  next
    case (Some u)
    have "(\<exists>i < length (w # ws). map_of tbl (clean ((w # ws) ! i)) = Some v \<and>
            (\<forall>j < i. map_of tbl (clean ((w # ws) ! j)) = None)) \<longleftrightarrow> u = v"
      (is "?L \<longleftrightarrow> _")
    proof
      assume ?L
      then obtain i where i: "map_of tbl (clean ((w # ws) ! i)) = Some v"
        "\<forall>j < i. map_of tbl (clean ((w # ws) ! j)) = None" by blast
      have "i = 0"
      proof (rule ccontr)
        assume "i \<noteq> 0"
        then have "0 < i" by simp
        with i(2) have "map_of tbl (clean ((w # ws) ! 0)) = None" by blast
        with Some show False by simp
      qed
      with i(1) Some show "u = v" by simp
    next
      assume "u = v"
      with Some show ?L by (intro exI [of _ 0]) simp
    qed
    with Some show ?thesis by simp
  qed
qed

lemma lookup_words_ran: "lookup_words clean tbl ws = Some v \<Longrightarrow> v \<in> ran (map_of tbl)"
  by (induction ws) (auto simp: ran_def split: option.splits)

lemma lookup_substring_ran:
  "lookup_substring tbl message xs = Some v \<Longrightarrow> v \<in> ran (map_of tbl)"
  by (induction xs) (auto simp: ran_def split: if_splits)

lemma extract_asset_ran:
  "extract_asset U P message = Some a \<Longrightarrow> a \<in> ran (map_of (asset_lookup P))"
  by (auto simp: extract_asset_def Let_def split: option.splits
      dest: lookup_words_ran lookup_substring_ran)

section \<open>The branches of parse\<close>

lemma parse_no_direction:
  assumes "falsy (extract_direction U P (str_upper U (strip U m)))"
  shows "parse U P now m =
     Returned (None, Some (CROSS # str '' Direction not found. Use: LONG/SHORT/BUY/SELL''))"
  using assms by (simp add: parse_def Let_def)

lemma parse_no_asset:
  assumes "\<not> falsy (extract_direction U P (str_upper U (strip U m)))"
    and "falsy (extract_asset U P (str_upper U (strip U m)))"
  shows "parse U P now m =
     Returned (None, Some (CROSS # str '' Asset not recognized. Available: ''
                             @ join (str '', '') (map fst (assets (config P)))))"
  using assms by (simp add: parse_def Let_def)

lemma parse_no_timeframe:
  assumes "\<not> falsy (extract_direction U P (str_upper U (strip U m)))"
    and "\<not> falsy (extract_asset U P (str_upper U (strip U m)))"
    and "falsy (extract_timeframe U P (str_upper U (strip U m)))"
  shows "parse U P now m =
     Returned (None, Some (CROSS # str '' Timeframe not found. Use: M1/M5/M15/H1/H4''))"
  using assms by (simp add: parse_def Let_def)

lemma parse_unsupported:
  assumes "extract_direction U P (str_upper U (strip U m)) = Some d" and "d \<noteq> []"
    and "extract_asset U P (str_upper U (strip U m)) = Some a" and "a \<noteq> []"
    and "extract_timeframe U P (str_upper U (strip U m)) = Some tf" and "tf \<noteq> []"
    and "map_of (assets (config P)) a = Some data"
    and "\<not> asset_contains data tf"
  shows "parse U P now m =
     Returned (None, Some (CROSS # str '' TF '' @ tf @ str '' not configured for '' @ a
       @ str ''. Available: ''
       @ join (str '', '') (filter (\<lambda>k. k \<noteq> str ''aliases'') (map fst (tf_rules data)))))"
  using assms by (simp add: parse_def Let_def falsy_def getitem_def)


text \<open>
  On the tables its constructor built, \<open>parse\<close> raises nothing: every failure of the
  extraction is the error string of the returned pair.
\<close>

lemma parse_returns:
  "\<exists>r. parse U (build_lookup_tables U cfg) now m = Returned r"
proof -
  let ?P = "build_lookup_tables U cfg"
  let ?msg = "str_upper U (strip U m)"
  show ?thesis
  proof (cases "falsy (extract_direction U ?P ?msg)")
    case True
    then show ?thesis by (simp add: parse_no_direction)
  next
    case d: False
    show ?thesis
    proof (cases "falsy (extract_asset U ?P ?msg)")
      case True
      with d show ?thesis by (simp add: parse_no_asset)
    next
      case a: False
      then obtain ast where ast: "extract_asset U ?P ?msg = Some ast"
        by (auto simp: falsy_def)
      then obtain k where "map_of (asset_lookup ?P) k = Some ast"
        using extract_asset_ran [of U ?P ?msg ast] by (auto simp: ran_def)
      then obtain data where data: "map_of (assets cfg) ast = Some data"
        using asset_lookup_values by blast
      have cfg: "config ?P = cfg" by (simp add: build_lookup_tables_def)
      show ?thesis
        using d a ast data cfg
        by (simp add: parse_def Let_def getitem_def)
    qed
  qed
qed

section \<open>Errors of the calculator and of the loader\<close>

text \<open>
  C2 (amended). The code has no error kinds and \<open>calculate\<close> returns no error value:
  for an (asset, timeframe) pair with no rule row it raises \<open>KeyError\<close> for the missing
  asset or timeframe key (\<open>AttributeError\<close> when the timeframe is the key "aliases" of an
  asset that declares aliases), and the exception unwinds to the caller. The extraction
  errors of \<open>parse\<close> are returned as values: \<open>parse\<close> always returns its pair.
\<close>

theorem missing_rule_raises:
  "(rule_row cfg ast tf = None \<longrightarrow>
      calculate cfg dir ast tf e =
        (case map_of (assets cfg) ast of
           None \<Rightarrow> Raised (KeyError ast)
         | Some data \<Rightarrow>
             if tf = str ''aliases'' \<and> aliases data \<noteq> None then Raised AttributeError
             else Raised (KeyError tf))) \<and>
   (\<exists>r. parse U (build_lookup_tables U cfg) now m = Returned r)"
proof
  show "rule_row cfg ast tf = None \<longrightarrow>
      calculate cfg dir ast tf e =
        (case map_of (assets cfg) ast of
           None \<Rightarrow> Raised (KeyError ast)
         | Some data \<Rightarrow>
             if tf = str ''aliases'' \<and> aliases data \<noteq> None then Raised AttributeError
             else Raised (KeyError tf))"
    by (auto simp: calculate_def rule_row_def getitem_def asset_getitem_def
        split: option.splits)
  show "\<exists>r. parse U (build_lookup_tables U cfg) now m = Returned r"
    by (rule parse_returns)
qed

theorem missing_rule_raises_witness:
  "rule_row example_config (str ''BTCUSD'') (str ''H4'') = None \<and>
   calculate example_config (str ''LONG'') (str ''BTCUSD'') (str ''H4'') 1
     = Raised (KeyError (str ''H4'')) \<and>
   rule_row example_config (str ''BTCUSD'') (str ''aliases'') = None \<and>
   calculate example_config (str ''LONG'') (str ''BTCUSD'') (str ''aliases'') 1
     = Raised AttributeError"
proof -
  have h1: "rule_row example_config (str ''BTCUSD'') (str ''H4'') = None"
    by (simp add: rule_row_def example_config_def str_def)
  have h2: "rule_row example_config (str ''BTCUSD'') (str ''aliases'') = None"
    by (simp add: rule_row_def example_config_def str_def)
  have m: "map_of (assets example_config) (str ''BTCUSD'') =
      Some \<lparr>aliases = Some [str ''BTC'', str ''BITCOIN''],
             tf_rules =
               [(str ''M1'', \<lparr>rule_tp1 = 0.5, rule_tp2 = 1.0, rule_tp3 = 1.5,
                              rule_sl = 0.7, rule_unit = Some (str ''%'')\<rparr>),
                (str ''M5'', \<lparr>rule_tp1 = 1.0, rule_tp2 = 2.0, rule_tp3 = 3.5,
                              rule_sl = 1.5, rule_unit = Some (str ''%'')\<rparr>)]\<rparr>"
    by (simp add: example_config_def str_def)
  have n: "str ''H4'' \<noteq> str ''aliases''"
    by (simp add: str_def)
  from missing_rule_raises [of example_config "str ''BTCUSD''" "str ''H4''" "str ''LONG''" 1]
    h1 m n
  have a: "calculate example_config (str ''LONG'') (str ''BTCUSD'') (str ''H4'') 1
     = Raised (KeyError (str ''H4''))"
    by simp
  from missing_rule_raises
    [of example_config "str ''BTCUSD''" "str ''aliases''" "str ''LONG''" 1] h2 m
  have b: "calculate example_config (str ''LONG'') (str ''BTCUSD'') (str ''aliases'') 1
     = Raised AttributeError"
    by simp
  from h1 h2 a b show ?thesis by blast
qed

text \<open>
  The claim as stated fails: on an asset the table does not have, \<open>calculate\<close> returns
  nothing and raises.
\<close>

theorem calculate_unknown_rule_counterexample:
  "rule_row example_config (str ''DOGEUSD'') (str ''M5'') = None \<and>
   calculate example_config (str ''LONG'') (str ''DOGEUSD'') (str ''M5'') 1
     = Raised (KeyError (str ''DOGEUSD''))"
  by (simp add: rule_row_def calculate_def getitem_def example_config_def str_def)




section \<open>Properties of the parser\<close>

text \<open>
  The code has no error kinds: an error of \<open>parse\<close> is the message in the second
  component of the returned pair, and the kinds of the specification are its four
  messages.
\<close>

text \<open>
  C6 (amended). For an input whose direction and asset resolve and whose timeframe token
  resolves, through the timeframe alias table, to a canonical timeframe that is no key of
  the asset's entry, \<open>parse\<close> fails with the unsupported-timeframe message, which names
  the timeframe and the asset and lists the asset's keys other than "aliases". A token
  that is no timeframe alias at all fails earlier, with the timeframe-not-found message.
\<close>

theorem unsupported_timeframe:
  assumes "extract_direction U P (str_upper U (strip U m)) = Some d" and "d \<noteq> []"
    and "extract_asset U P (str_upper U (strip U m)) = Some a" and "a \<noteq> []"
    and "extract_timeframe U P (str_upper U (strip U m)) = Some tf" and "tf \<noteq> []"
    and "map_of (assets (config P)) a = Some data"
    and "\<not> asset_contains data tf"
  shows "parse U P now m =
     Returned (None, Some (CROSS # str '' TF '' @ tf @ str '' not configured for '' @ a
       @ str ''. Available: ''
       @ join (str '', '') (filter (\<lambda>k. k \<noteq> str ''aliases'') (map fst (tf_rules data)))))"
  using assms by (rule parse_unsupported)

lemma example_btcusd:
  "map_of (assets (config parser0)) (str ''BTCUSD'') =
      Some \<lparr>aliases = Some [str ''BTC'', str ''BITCOIN''],
             tf_rules = [(str ''M1'', \<lparr>rule_tp1 = 0.5, rule_tp2 = 1.0, rule_tp3 = 1.5,
                              rule_sl = 0.7, rule_unit = Some (str ''%'')\<rparr>),
                         (str ''M5'', btc_m5)]\<rparr>"
  by (simp add: parser0_def build_lookup_tables_def example_config_def btc_m5_def str_def)

theorem unsupported_timeframe_witness:
  "extract_direction ascii parser0 (str_upper ascii (strip ascii (str ''LONG BTCUSD H1'')))
     = Some (str ''LONG'') \<and>
   extract_asset ascii parser0 (str_upper ascii (strip ascii (str ''LONG BTCUSD H1'')))
     = Some (str ''BTCUSD'') \<and>
   extract_timeframe ascii parser0 (str_upper ascii (strip ascii (str ''LONG BTCUSD H1'')))
     = Some (str ''H1'') \<and>
   parse ascii parser0 0 (str ''LONG BTCUSD H1'') =
     Returned (None, Some (CROSS # str '' TF H1 not configured for BTCUSD. Available: M1, M5''))"
proof -
  let ?data = "\<lparr>aliases = Some [str ''BTC'', str ''BITCOIN''],
             tf_rules = [(str ''M1'', \<lparr>rule_tp1 = 0.5, rule_tp2 = 1.0, rule_tp3 = 1.5,
                              rule_sl = 0.7, rule_unit = Some (str ''%'')\<rparr>),
                         (str ''M5'', btc_m5)]\<rparr>"
  have h1: "extract_direction ascii parser0
      (str_upper ascii (strip ascii (str ''LONG BTCUSD H1''))) = Some (str ''LONG'')"
    by code_simp
  have h2: "str ''LONG'' \<noteq> []" by (simp add: str_def)
  have h3: "extract_asset ascii parser0
      (str_upper ascii (strip ascii (str ''LONG BTCUSD H1''))) = Some (str ''BTCUSD'')"
    by code_simp
  have h4: "str ''BTCUSD'' \<noteq> []" by (simp add: str_def)
  have h5: "extract_timeframe ascii parser0
      (str_upper ascii (strip ascii (str ''LONG BTCUSD H1''))) = Some (str ''H1'')"
    by code_simp
  have h6: "str ''H1'' \<noteq> []" by (simp add: str_def)
  have h8: "\<not> asset_contains ?data (str ''H1'')"
    by (simp add: asset_contains_def str_def)
  have "parse ascii parser0 0 (str ''LONG BTCUSD H1'') =
     Returned (None, Some (CROSS # str '' TF '' @ str ''H1'' @ str '' not configured for ''
       @ str ''BTCUSD'' @ str ''. Available: ''
       @ join (str '', '') (filter (\<lambda>k. k \<noteq> str ''aliases'') (map fst (tf_rules ?data)))))"
    by (rule unsupported_timeframe [OF h1 h2 h3 h4 h5 h6 example_btcusd h8])
  then have "parse ascii parser0 0 (str ''LONG BTCUSD H1'') =
     Returned (None, Some (CROSS # str '' TF H1 not configured for BTCUSD. Available: M1, M5''))"
    by (simp add: str_def)
  with h1 h3 h5 show ?thesis by blast
qed

text \<open>
  The claim as stated fails on its own example: with a table in which M99 is no
  timeframe alias, direction and asset of "LONG BTCUSD M99" resolve, BTCUSD has no M99
  rule, and the error is the timeframe-not-found message.
\<close>

theorem unsupported_timeframe_counterexample:
  "extract_direction ascii parser0 (str_upper ascii (strip ascii (str ''LONG BTCUSD M99'')))
     = Some (str ''LONG'') \<and>
   extract_asset ascii parser0 (str_upper ascii (strip ascii (str ''LONG BTCUSD M99'')))
     = Some (str ''BTCUSD'') \<and>
   rule_row example_config (str ''BTCUSD'') (str ''M99'') = None \<and>
   parse ascii parser0 0 (str ''LONG BTCUSD M99'') =
     Returned (None, Some (CROSS # str '' Timeframe not found. Use: M1/M5/M15/H1/H4''))"
proof -
  have a: "extract_direction ascii parser0
      (str_upper ascii (strip ascii (str ''LONG BTCUSD M99''))) = Some (str ''LONG'')"
    by code_simp
  have b: "extract_asset ascii parser0
      (str_upper ascii (strip ascii (str ''LONG BTCUSD M99''))) = Some (str ''BTCUSD'')"
    by code_simp
  have c: "rule_row example_config (str ''BTCUSD'') (str ''M99'') = None"
    by (simp add: rule_row_def example_config_def str_def)
  have d: "parse ascii parser0 0 (str ''LONG BTCUSD M99'') =
     Returned (None, Some (CROSS # str '' Timeframe not found. Use: M1/M5/M15/H1/H4''))"
    by code_simp
  from a b c d show ?thesis by blast
qed



text \<open>The first match among the first \<open>n\<close> words.\<close>

lemma first_match_take:
  "(\<exists>i < length (take n ws). P (take n ws ! i) \<and> (\<forall>j < i. Q (take n ws ! j))) \<longleftrightarrow>
   (\<exists>i < min n (length ws). P (ws ! i) \<and> (\<forall>j < i. Q (ws ! j)))"
  (is "?L \<longleftrightarrow> ?R")
proof
  assume ?L
  then obtain i where i: "i < length (take n ws)" "P (take n ws ! i)"
    "\<forall>j < i. Q (take n ws ! j)" by blast
  from i(1) have b: "i < n" "i < length ws" by simp_all
  have "\<forall>j < i. Q (ws ! j)"
  proof (intro allI impI)
    fix j assume j: "j < i"
    with i(3) have "Q (take n ws ! j)" by blast
    moreover from j b have "j < n" by simp
    ultimately show "Q (ws ! j)" by simp
  qed
  moreover from i(2) b have "P (ws ! i)" by simp
  ultimately show ?R using b by (intro exI [of _ i]) simp
next
  assume ?R
  then obtain i where i: "i < min n (length ws)" "P (ws ! i)" "\<forall>j < i. Q (ws ! j)"
    by blast
  from i(1) have b: "i < n" "i < length ws" by simp_all
  have "\<forall>j < i. Q (take n ws ! j)"
  proof (intro allI impI)
    fix j assume j: "j < i"
    with i(3) have "Q (ws ! j)" by blast
    moreover from j b have "j < n" by simp
    ultimately show "Q (take n ws ! j)" by simp
  qed
  moreover from i(2) b have "P (take n ws ! i)" by simp
  ultimately show ?L using b by (intro exI [of _ i]) simp
qed

text \<open>
  C9 (amended). Direction extraction examines only the first three whitespace-delimited
  tokens of the normalized input; from each it deletes every character that is neither
  a word character (alphanumeric or the underscore, which is kept) nor one of the two
  glyphs, and it returns the canonical direction of the first token whose cleaned form
  is a direction alias. When none of the first three tokens matches, whatever the later
  tokens are, \<open>parse\<close> fails with the direction-not-found message.
\<close>

theorem direction_first_three_tokens:
  fixes U :: unicode and P :: message_parser and m :: pstr
  defines "ws \<equiv> split U (str_upper U (strip U m))"
  shows "(extract_direction U P (str_upper U (strip U m)) = Some d \<longleftrightarrow>
            (\<exists>i < min 3 (length ws).
               map_of (direction_lookup P) (sub_nonword_glyph U (ws ! i)) = Some d \<and>
               (\<forall>j < i. map_of (direction_lookup P) (sub_nonword_glyph U (ws ! j)) = None))) \<and>
         ((\<forall>w \<in> set (take 3 ws). map_of (direction_lookup P) (sub_nonword_glyph U w) = None)
            \<longrightarrow> parse U P now m =
              Returned (None,
                Some (CROSS # str '' Direction not found. Use: LONG/SHORT/BUY/SELL'')))"
proof
  have "extract_direction U P (str_upper U (strip U m)) =
      lookup_words (sub_nonword_glyph U) (direction_lookup P) (take 3 ws)"
    by (simp add: extract_direction_def Let_def ws_def)
  then show "extract_direction U P (str_upper U (strip U m)) = Some d \<longleftrightarrow>
      (\<exists>i < min 3 (length ws).
         map_of (direction_lookup P) (sub_nonword_glyph U (ws ! i)) = Some d \<and>
         (\<forall>j < i. map_of (direction_lookup P) (sub_nonword_glyph U (ws ! j)) = None))"
    using first_match_take
      [of 3 ws "\<lambda>w. map_of (direction_lookup P) (sub_nonword_glyph U w) = Some d"
         "\<lambda>w. map_of (direction_lookup P) (sub_nonword_glyph U w) = None"]
    by (simp only: lookup_words_Some_iff)
next
  show "(\<forall>w \<in> set (take 3 ws). map_of (direction_lookup P) (sub_nonword_glyph U w) = None)
      \<longrightarrow> parse U P now m =
        Returned (None, Some (CROSS # str '' Direction not found. Use: LONG/SHORT/BUY/SELL''))"
  proof
    assume "\<forall>w \<in> set (take 3 ws). map_of (direction_lookup P) (sub_nonword_glyph U w) = None"
    then have "lookup_words (sub_nonword_glyph U) (direction_lookup P) (take 3 ws) = None"
      by (simp only: lookup_words_None_iff)
    then have "extract_direction U P (str_upper U (strip U m)) = None"
      by (simp add: extract_direction_def Let_def ws_def)
    then show "parse U P now m =
        Returned (None, Some (CROSS # str '' Direction not found. Use: LONG/SHORT/BUY/SELL''))"
      by (simp add: parse_no_direction falsy_def)
  qed
qed

theorem direction_first_three_tokens_witness:
  "lookup_words (sub_nonword_glyph ascii) (direction_lookup parser0)
     (take 3 (split ascii (str_upper ascii (strip ascii (str ''x y z LONG btc 5m''))))) = None \<and>
   lookup_words (sub_nonword_glyph ascii) (direction_lookup parser0)
     (split ascii (str_upper ascii (strip ascii (str ''x y z LONG btc 5m'')))) = Some (str ''LONG'') \<and>
   parse ascii parser0 0 (str ''x y z LONG btc 5m'') =
     Returned (None, Some (CROSS # str '' Direction not found. Use: LONG/SHORT/BUY/SELL''))"
proof -
  have h: "lookup_words (sub_nonword_glyph ascii) (direction_lookup parser0)
     (take 3 (split ascii (str_upper ascii (strip ascii (str ''x y z LONG btc 5m''))))) = None"
    by code_simp
  have l: "lookup_words (sub_nonword_glyph ascii) (direction_lookup parser0)
     (split ascii (str_upper ascii (strip ascii (str ''x y z LONG btc 5m'')))) = Some (str ''LONG'')"
    by code_simp
  from h have "\<forall>w \<in> set (take 3 (split ascii (str_upper ascii (strip ascii
        (str ''x y z LONG btc 5m''))))).
      map_of (direction_lookup parser0) (sub_nonword_glyph ascii w) = None"
    by (simp only: lookup_words_None_iff)
  with direction_first_three_tokens [of ascii parser0 "str ''x y z LONG btc 5m''" "[]" 0]
  have "parse ascii parser0 0 (str ''x y z LONG btc 5m'') =
     Returned (None, Some (CROSS # str '' Direction not found. Use: LONG/SHORT/BUY/SELL''))"
    by blast
  with h l show ?thesis by blast
qed

text \<open>
  The claim as stated fails: the underscore is no alphanumeric character, yet it is
  kept, so "_LONG" is no direction for the code while the stripping the claim describes
  reads it as LONG.
\<close>

theorem direction_underscore_counterexample:
  "spec_extract_direction ascii parser0
     (str_upper ascii (strip ascii (str ''_LONG BTCUSD M5''))) = Some (str ''LONG'') \<and>
   extract_direction ascii parser0
     (str_upper ascii (strip ascii (str ''_LONG BTCUSD M5''))) = None \<and>
   parse ascii parser0 0 (str ''_LONG BTCUSD M5'') =
     Returned (None, Some (CROSS # str '' Direction not found. Use: LONG/SHORT/BUY/SELL''))"
proof -
  have ws: "take 3 (split ascii (str_upper ascii (strip ascii (str ''_LONG BTCUSD M5''))))
      = [str ''_LONG'', str ''BTCUSD'', str ''M5'']"
    by code_simp
  have tok: "spec_strip_token ascii (str ''_LONG'') = str ''LONG''"
    by (simp add: spec_strip_token_def ascii_def GREEN_def RED_def str_def)
  have tbl: "map_of (direction_lookup parser0) (str ''LONG'') = Some (str ''LONG'')"
    by code_simp
  have a: "spec_extract_direction ascii parser0
     (str_upper ascii (strip ascii (str ''_LONG BTCUSD M5''))) = Some (str ''LONG'')"
    unfolding spec_extract_direction_def ws by (simp add: tok tbl)
  have b: "extract_direction ascii parser0
     (str_upper ascii (strip ascii (str ''_LONG BTCUSD M5''))) = None"
    by code_simp
  have c: "parse ascii parser0 0 (str ''_LONG BTCUSD M5'') =
     Returned (None, Some (CROSS # str '' Direction not found. Use: LONG/SHORT/BUY/SELL''))"
    by code_simp
  from a b c show ?thesis by blast
qed

text \<open>
  The substring fallback returns the table's value of the first alias, in the sorted
  order, that occurs in the message.
\<close>

lemma lookup_substring_first:
  assumes "sorted (map f xs)" and "L \<in> set xs" and "contains msg L"
    and "\<forall>k \<in> set xs. k \<noteq> L \<longrightarrow> contains msg k \<longrightarrow> f L < (f k :: int)"
  shows "lookup_substring tbl msg xs = map_of tbl L"
  using assms
proof (induction xs)
  case Nil
  then show ?case by simp
next
  case (Cons x xs)
  show ?case
  proof (cases "x = L")
    case True
    with Cons.prems(3) show ?thesis by simp
  next
    case False
    with Cons.prems(2) have L: "L \<in> set xs" by simp
    have "\<not> contains msg x"
    proof
      assume "contains msg x"
      with False Cons.prems(4) have "f L < f x" by simp
      moreover from Cons.prems(1) L have "f x \<le> f L" by auto
      ultimately show False by simp
    qed
    moreover have "lookup_substring tbl msg xs = map_of tbl L"
      using Cons.IH Cons.prems L by simp
    ultimately show ?thesis by simp
  qed
qed

text \<open>
  C7 (amended). In the substring fallback aliases are tried longest first: when no token
  of the message matches exactly and the message contains an alias as a substring, every
  other alias it contains being strictly shorter, \<open>parse\<close> resolves the asset owning that
  alias; a shorter alias never masks it. An alias at least as long that also occurs in
  the message may be tried before it.
\<close>

theorem longest_alias_first:
  fixes U :: unicode and P :: message_parser and m :: pstr
  defines "msg \<equiv> str_upper U (strip U m)"
  assumes "lookup_words (sub_nonword U) (asset_lookup P) (split U (replace_char 64 32 msg)) = None"
    and "map_of (asset_lookup P) L = Some a"
    and "contains msg L"
    and "\<forall>k \<in> set (map fst (asset_lookup P)).
           k \<noteq> L \<longrightarrow> contains msg k \<longrightarrow> length k < length L"
  shows "extract_asset U P msg = Some a \<and>
         (\<forall>s e. parse U P now m = Returned (Some s, e) \<longrightarrow> signal_asset s = a)"
proof -
  let ?f = "\<lambda>k :: pstr. - int (length k)"
  have "L \<in> set (map fst (asset_lookup P))"
    using assms(3) by (metis map_of_eq_None_iff option.distinct(1) set_map)
  then have "lookup_substring (asset_lookup P) msg
        (sorted_by_len_reverse (map fst (asset_lookup P))) = map_of (asset_lookup P) L"
    unfolding sorted_by_len_reverse_def
    using assms(4,5)
    by (intro lookup_substring_first [where f = ?f]) auto
  with assms(2,3) have ea: "extract_asset U P msg = Some a"
    by (simp add: extract_asset_def Let_def)
  then have "\<forall>s e. parse U P now m = Returned (Some s, e) \<longrightarrow> signal_asset s = a"
    unfolding msg_def
    by (auto simp: parse_def Let_def split: if_splits outcome.splits)
  with ea show ?thesis by simp
qed

theorem longest_alias_first_witness:
  "lookup_words (sub_nonword ascii) (asset_lookup nested_parser)
     (split ascii (replace_char 64 32
        (str_upper ascii (strip ascii (str ''LONG XBTCUSDX M5''))))) = None \<and>
   map_of (asset_lookup nested_parser) (str ''BTC'') = Some (str ''BTC'') \<and>
   map_of (asset_lookup nested_parser) (str ''BTCUSD'') = Some (str ''BTCUSD'') \<and>
   contains (str_upper ascii (strip ascii (str ''LONG XBTCUSDX M5''))) (str ''BTC'') \<and>
   contains (str_upper ascii (strip ascii (str ''LONG XBTCUSDX M5''))) (str ''BTCUSD'') \<and>
   extract_asset ascii nested_parser
     (str_upper ascii (strip ascii (str ''LONG XBTCUSDX M5''))) = Some (str ''BTCUSD'')"
proof -
  have h1: "lookup_words (sub_nonword ascii) (asset_lookup nested_parser)
     (split ascii (replace_char 64 32
        (str_upper ascii (strip ascii (str ''LONG XBTCUSDX M5''))))) = None"
    by code_simp
  have h0: "map_of (asset_lookup nested_parser) (str ''BTC'') = Some (str ''BTC'')"
    by code_simp
  have h2: "map_of (asset_lookup nested_parser) (str ''BTCUSD'') = Some (str ''BTCUSD'')"
    by code_simp
  have c0: "contains (str_upper ascii (strip ascii (str ''LONG XBTCUSDX M5''))) (str ''BTC'')"
    by code_simp
  have h3: "contains (str_upper ascii (strip ascii (str ''LONG XBTCUSDX M5''))) (str ''BTCUSD'')"
    by code_simp
  have h4: "\<forall>k \<in> set (map fst (asset_lookup nested_parser)).
      k \<noteq> str ''BTCUSD'' \<longrightarrow>
      contains (str_upper ascii (strip ascii (str ''LONG XBTCUSDX M5''))) k \<longrightarrow>
      length k < length (str ''BTCUSD'')"
    by code_simp
  from longest_alias_first [OF h1 h2 h3 h4, of 0]
  have "extract_asset ascii nested_parser
     (str_upper ascii (strip ascii (str ''LONG XBTCUSDX M5''))) = Some (str ''BTCUSD'')"
    by blast
  with h0 h1 h2 c0 h3 show ?thesis by blast
qed

text \<open>
  The claim as stated fails: BTC is a proper substring of BTCUSD, no token of
  "LONG XBTCUSDTX M5" matches exactly and the message contains BTCUSD, yet the asset
  resolved is BTCUSDT, whose longer symbol occurs in the message too.
\<close>

theorem longest_alias_counterexample:
  "lookup_words (sub_nonword ascii) (asset_lookup nested_parser)
     (split ascii (replace_char 64 32
        (str_upper ascii (strip ascii (str ''LONG XBTCUSDTX M5''))))) = None \<and>
   map_of (asset_lookup nested_parser) (str ''BTC'') = Some (str ''BTC'') \<and>
   map_of (asset_lookup nested_parser) (str ''BTCUSD'') = Some (str ''BTCUSD'') \<and>
   contains (str ''BTCUSD'') (str ''BTC'') \<and>
   contains (str_upper ascii (strip ascii (str ''LONG XBTCUSDTX M5''))) (str ''BTCUSD'') \<and>
   parse ascii nested_parser 0 (str ''LONG XBTCUSDTX M5'') =
     Returned (Some \<lparr>signal_direction = str ''LONG'', signal_asset = str ''BTCUSDT'',
                     signal_timeframe = str ''M5'',
                     original_message = str ''LONG XBTCUSDTX M5'',
                     timestamp = 0, entry_price = None\<rparr>, None)"
proof -
  have a: "lookup_words (sub_nonword ascii) (asset_lookup nested_parser)
     (split ascii (replace_char 64 32
        (str_upper ascii (strip ascii (str ''LONG XBTCUSDTX M5''))))) = None"
    by code_simp
  have b: "map_of (asset_lookup nested_parser) (str ''BTC'') = Some (str ''BTC'')"
    by code_simp
  have c: "map_of (asset_lookup nested_parser) (str ''BTCUSD'') = Some (str ''BTCUSD'')"
    by code_simp
  have d: "contains (str ''BTCUSD'') (str ''BTC'')"
    by code_simp
  have e: "contains (str_upper ascii (strip ascii (str ''LONG XBTCUSDTX M5''))) (str ''BTCUSD'')"
    by code_simp
  have f: "parse ascii nested_parser 0 (str ''LONG XBTCUSDTX M5'') =
     Returned (Some \<lparr>signal_direction = str ''LONG'', signal_asset = str ''BTCUSDT'',
                     signal_timeframe = str ''M5'',
                     original_message = str ''LONG XBTCUSDTX M5'',
                     timestamp = 0, entry_price = None\<rparr>, None)"
    by code_simp
  from a b c d e f show ?thesis by blast
qed


end
